theory Spec2Isabelle
  imports Main
begin

section \<open>Values, exceptions and the constants of the absent modules\<close>

text \<open>
  Python values that travel through the attribute shadow and the schedule document.
  A dict is an association list in insertion order.
\<close>

datatype pyval =
    PNone
  | PBool bool
  | PInt int
  | PStr string
  | PList "pyval list"
  | PDict "(string \<times> pyval) list"

text \<open>
  Exceptions raised in the modelled code. \<open>KeyError\<close> carries the missing key,
  \<open>Raised\<close> stands for any \<open>Exception\<close> coming out of an external collaborator.
\<close>

datatype exn =
    KeyError pyval
  | TypeError
  | HomeAssistantError string
  | Raised string

text \<open>One value of \<open>SCHEDULE_TO_DAY\<close>: the request keys of a weekday and its clear name.\<close>

record day =
  day_start :: string
  day_end :: string
  day_clear :: string

text \<open>
  The modules \<open>const\<close>, \<open>attribute_map\<close> and \<open>pyworxcloud.states\<close> are not part of the
  sources at hand; their constants and tables are parameters of the model.
  \<open>ATTR_MAP_state\<close> is \<open>ATTR_MAP["default"]["state"]\<close> in iteration order,
  \<open>ATTR_MAP_icon\<close> is \<open>ATTR_MAP["default"]["icon"]\<close>, \<open>SCHEDULE_TO_DAY\<close> lists the
  values of the dict of that name in iteration order.
\<close>

record constants =
  STATE_INITIALIZING :: string
  STATE_OFFLINE :: string
  STATE_RAINDELAY :: string
  STATE_MAP :: "int \<rightharpoonup> string"
  ATTR_MAP_state :: "(string \<times> string) list"
  ATTR_MAP_icon :: string
  ERROR_TO_DESCRIPTION :: "int \<rightharpoonup> string"
  SCHEDULE_TYPE_MAP :: "string \<rightharpoonup> string"
  SCHEDULE_TO_DAY :: "day list"

text \<open>The state names imported from \<open>homeassistant.components.vacuum\<close>.\<close>

definition STATE_DOCKED :: string where
  "STATE_DOCKED = ''docked''"

definition STATE_ERROR :: string where
  "STATE_ERROR = ''error''"

definition STATE_RETURNING :: string where
  "STATE_RETURNING = ''returning''"

section \<open>The device handle and the entity\<close>

text \<open>One stored weekday of a device schedule: \<open>{"start", "duration", "boundary"}\<close>.\<close>

record sched_day =
  start :: pyval
  duration :: pyval
  boundary :: bool

text \<open>The calls an entity dispatches to the device handle.\<close>

datatype call = Home | Send pyval

text \<open>
  The \<open>WorxCloud\<close> handle as the entities read it. \<open>props\<close> is what \<open>hasattr\<close> and
  \<open>getattr\<close> see (\<open>None\<close>: no such property; \<open>Some PNone\<close>: property holding
  \<open>None\<close>); \<open>zone\<close> is the outcome of reading the attribute \<open>zone\<close>;
  \<open>calls\<close> logs the method calls received, oldest first.
\<close>

record worxcloud =
  online :: bool
  error :: "int option"
  status :: int
  serial :: pyval
  battery_percent :: pyval
  props :: "string \<rightharpoonup> pyval"
  zone :: "exn + int list"
  schedules :: "(string \<times> (string \<times> sched_day) list) list"
  calls :: "call list"

text \<open>The fields of \<open>LandroidCloudBaseEntity\<close> that \<open>async_update\<close> writes.\<close>

record entity =
  attributes :: "string \<rightharpoonup> pyval"
  available :: bool
  attr_state :: string
  icon :: "string option"
  serialnumber :: pyval
  battery_level :: pyval

section \<open>LandroidCloudBaseEntity.async_update\<close>

text \<open>
  The loop over \<open>methods["state"].items()\<close>: a property is copied into \<open>data\<close> under
  its attribute name when the handle has it and its value is not \<open>None\<close>.
\<close>

fun copy_props :: "(string \<rightharpoonup> pyval) \<Rightarrow> (string \<times> string) list \<Rightarrow> (string \<rightharpoonup> pyval) \<Rightarrow> (string \<rightharpoonup> pyval)" where
  "copy_props master [] data = data"
| "copy_props master ((prop, attr) # rest) data =
     (case master prop of
        None \<Rightarrow> copy_props master rest data
      | Some prop_data \<Rightarrow>
          if prop_data \<noteq> PNone then copy_props master rest (data(attr \<mapsto> prop_data))
          else copy_props master rest data)"

text \<open>\<open>master.error or 0\<close>: an absent code and a zero code both give 0.\<close>

definition error_or_0 :: "int option \<Rightarrow> int" where
  "error_or_0 e = (case e of None \<Rightarrow> 0 | Some n \<Rightarrow> if n = 0 then 0 else n)"

text \<open>The state computation, from \<open>state = STATE_INITIALIZING\<close> to the end of the \<open>try\<close>.\<close>

definition derive_state :: "constants \<Rightarrow> worxcloud \<Rightarrow> string" where
  "derive_state c master =
     (if \<not> online master then STATE_OFFLINE c
      else if (case error master of None \<Rightarrow> False | Some e \<Rightarrow> e > 0) then
        (case error master of
           None \<Rightarrow> STATE_INITIALIZING c
         | Some e \<Rightarrow>
             if e > 0 \<and> e \<noteq> 5 then STATE_ERROR
             else if e = 5 then STATE_RAINDELAY c
             else STATE_INITIALIZING c)
      else
        (case STATE_MAP c (status master) of
           Some s \<Rightarrow> s
         | None \<Rightarrow> STATE_INITIALIZING c))"

text \<open>Python's \<open>len\<close>: a \<open>TypeError\<close> on a value that has no length.\<close>

fun py_len :: "pyval \<Rightarrow> exn + nat" where
  "py_len (PStr s) = Inr (length s)"
| "py_len (PList xs) = Inr (length xs)"
| "py_len (PDict kvs) = Inr (length kvs)"
| "py_len _ = Inl TypeError"

text \<open>\<open>zone_mapping\<close> of the base class: it returns \<open>False\<close> and changes nothing.\<close>

definition zone_mapping :: "entity \<Rightarrow> entity" where
  "zone_mapping self = self"

text \<open>
  \<open>async_update\<close>, statement by statement. The entity is mutated in place, so the
  model returns the entity as it stands when the method returns or raises, next to the
  exception if one was raised.
\<close>

definition async_update :: "constants \<Rightarrow> worxcloud \<Rightarrow> entity \<Rightarrow> exn option \<times> entity" where
  "async_update c master self =
     (let self1 = self\<lparr>icon := Some (ATTR_MAP_icon c)\<rparr>;
          data = copy_props (props master) (ATTR_MAP_state c) Map.empty
      in case ERROR_TO_DESCRIPTION c (error_or_0 (error master)) of
           None \<Rightarrow> (Some (KeyError (PInt (error_or_0 (error master)))), self1)
         | Some descr \<Rightarrow>
             let data' = data(''error'' \<mapsto> PStr descr);
                 self2 = self1\<lparr>attributes := attributes self1 ++ data', available := online master\<rparr>;
                 state = derive_state c master
             in case (case attributes self2 ''zone_probability'' of
                        None \<Rightarrow> Inr self2
                      | Some zp \<Rightarrow>
                          (case py_len zp of
                             Inl e \<Rightarrow> Inl e
                           | Inr n \<Rightarrow> if n = 10 then Inr (zone_mapping self2) else Inr self2)) of
                  Inl e \<Rightarrow> (Some e, self2)
                | Inr self3 \<Rightarrow>
                    (None, self3\<lparr>attr_state := state,
                                 serialnumber := serial master,
                                 battery_level := battery_percent master\<rparr>))"

section \<open>LandroidCloudSelectZoneEntity\<close>

text \<open>The fields of the select entity that the zone update writes.\<close>

record select_entity =
  attr_options :: "string list"
  attr_current_option :: "string option"

text \<open>Python's \<open>str\<close> on a non-negative integer: its decimal digits.\<close>

function py_str :: "nat \<Rightarrow> string" where
  "py_str n =
     (if n < 10 then [''0123456789'' ! n]
      else py_str (n div 10) @ [''0123456789'' ! (n mod 10)])"
  by pat_completeness auto
termination
  by (relation "measure (\<lambda>n. n)") auto

declare py_str.simps [simp del]

text \<open>
  \<open>_update_zone\<close>: reading \<open>self.api.device.zone\<close> is wrapped in a bare \<open>except\<close> that
  falls back to the empty list; the options are rebuilt only for four zones, by the loop
  over \<open>range(1, 4)\<close>.
\<close>

definition update_zone :: "worxcloud \<Rightarrow> select_entity \<Rightarrow> select_entity" where
  "update_zone device self =
     (let zones = (case zone device of Inl _ \<Rightarrow> [] | Inr z \<Rightarrow> z)
      in if length zones = 4 then
           self\<lparr>attr_options :=
                  fold (\<lambda>idx options. if zones ! idx \<noteq> 0 then options @ [py_str idx] else options)
                       [1..<4] [''0'']\<rparr>
         else self)"

section \<open>LandroidCloudMowerBase: return to base and stop\<close>

text \<open>The property \<open>state\<close> of the mower entity.\<close>

definition state :: "entity \<Rightarrow> string" where
  "state self = attr_state self"

text \<open>
  \<open>async_return_to_base\<close> and its alias \<open>async_stop\<close>: the entity and the device handle
  after the call.
\<close>

definition async_return_to_base :: "worxcloud \<Rightarrow> entity \<Rightarrow> entity \<times> worxcloud" where
  "async_return_to_base device self =
     (if state self \<notin> set [STATE_DOCKED, STATE_RETURNING]
      then (self, device\<lparr>calls := calls device @ [Home]\<rparr>)
      else (self, device))"

definition async_stop :: "worxcloud \<Rightarrow> entity \<Rightarrow> entity \<times> worxcloud" where
  "async_stop device self = async_return_to_base device self"

section \<open>LandroidCloudMowerBase.async_set_schedule\<close>

text \<open>Subscripting a dict: \<open>KeyError\<close> on a missing key.\<close>

definition getitem :: "(string \<times> 'v) list \<Rightarrow> string \<Rightarrow> exn + 'v" where
  "getitem d k = (case map_of d k of None \<Rightarrow> Inl (KeyError (PStr k)) | Some v \<Rightarrow> Inr v)"

text \<open>Assigning to a dict key: an existing key keeps its place, a new key goes last.\<close>

fun dict_set :: "(string \<times> 'v) list \<Rightarrow> string \<Rightarrow> 'v \<Rightarrow> (string \<times> 'v) list" where
  "dict_set [] k v = [(k, v)]"
| "dict_set ((k', v') # rest) k v =
     (if k' = k then (k, v) # rest else (k', v') # dict_set rest k v)"

text \<open>
  \<open>SCHEDULE_TYPE_MAP[schedule_type]\<close> for the value found under \<open>"type"\<close>: the table has
  string keys only, lists and dicts cannot be hashed. Returns the type and its wire key.
\<close>

fun type_key :: "constants \<Rightarrow> pyval \<Rightarrow> exn + (string \<times> string)" where
  "type_key c (PStr t) =
     (case SCHEDULE_TYPE_MAP c t of
        None \<Rightarrow> Inl (KeyError (PStr t))
      | Some k \<Rightarrow> Inr (t, k))"
| "type_key c (PList xs) = Inl TypeError"
| "type_key c (PDict kvs) = Inl TypeError"
| "type_key c v = Inl (KeyError v)"

text \<open>
  The \<open>else\<close> branch of the loop body: the list \<open>current\<close> built from the stored day,
  \<open>int(...)\<close> applied to the boundary flag.
\<close>

definition stored_triple :: "worxcloud \<Rightarrow> string \<Rightarrow> day \<Rightarrow> exn + pyval" where
  "stored_triple device schedule_type d =
     (case getitem (schedules device) schedule_type of
        Inl e \<Rightarrow> Inl e
      | Inr sched \<Rightarrow>
          (case getitem sched (day_clear d) of
             Inl e \<Rightarrow> Inl e
           | Inr entry \<Rightarrow>
               Inr (PList [start entry, duration entry,
                           PInt (if boundary entry then 1 else 0)])))"

text \<open>
  The helpers \<open>parseday\<close> and \<open>pass_thru\<close> live in the module \<open>utils\<close>, which is not part
  of the sources at hand: both are parameters, and either may raise.
\<close>

type_synonym parseday_fn = "day \<Rightarrow> (string \<rightharpoonup> pyval) \<Rightarrow> exn + pyval"
type_synonym pass_thru_fn = "(string \<times> sched_day) list \<Rightarrow> exn + pyval"

text \<open>
  The loop over \<open>SCHEDULE_TO_DAY.items()\<close>; \<open>acc\<close> is the list under the edited type's
  key, to which the loop appends.
\<close>

fun generate_days :: "parseday_fn \<Rightarrow> worxcloud \<Rightarrow> string \<Rightarrow> (string \<rightharpoonup> pyval) \<Rightarrow> day list \<Rightarrow> pyval list \<Rightarrow> exn + pyval list" where
  "generate_days parseday device schedule_type data [] acc = Inr acc"
| "generate_days parseday device schedule_type data (d # rest) acc =
     (if data (day_start d) \<noteq> None then
        if data (day_end d) = None then
          Inl (HomeAssistantError (''No end time specified for '' @ day_clear d))
        else
          (case parseday d data of
             Inl e \<Rightarrow> Inl e
           | Inr t \<Rightarrow> generate_days parseday device schedule_type data rest (acc @ [t]))
      else
        (case stored_triple device schedule_type d of
           Inl e \<Rightarrow> Inl e
         | Inr current \<Rightarrow>
             generate_days parseday device schedule_type data rest (acc @ [current])))"

text \<open>
  \<open>schedule[SCHEDULE_TYPE_MAP[which]] = pass_thru(device.schedules[which])\<close>: the right
  hand side is evaluated first.
\<close>

definition pass_other :: "constants \<Rightarrow> pass_thru_fn \<Rightarrow> worxcloud \<Rightarrow> string \<Rightarrow> (string \<times> pyval) list \<Rightarrow> exn + (string \<times> pyval) list" where
  "pass_other c pass_thru device which schedule =
     (case getitem (schedules device) which of
        Inl e \<Rightarrow> Inl e
      | Inr stored \<Rightarrow>
          (case pass_thru stored of
             Inl e \<Rightarrow> Inl e
           | Inr v \<Rightarrow>
               (case SCHEDULE_TYPE_MAP c which of
                  None \<Rightarrow> Inl (KeyError (PStr which))
                | Some k \<Rightarrow> Inr (dict_set schedule k v))))"

text \<open>The dict \<open>schedule\<close> as it stands before \<open>json.dumps\<close>.\<close>

definition build_schedule :: "constants \<Rightarrow> pass_thru_fn \<Rightarrow> parseday_fn \<Rightarrow> worxcloud \<Rightarrow> (string \<rightharpoonup> pyval) \<Rightarrow> exn + (string \<times> pyval) list" where
  "build_schedule c pass_thru parseday device data =
     (case data ''type'' of
        None \<Rightarrow> Inl (KeyError (PStr ''type''))
      | Some tv \<Rightarrow>
     (case type_key c tv of
        Inl e \<Rightarrow> Inl e
      | Inr (schedule_type, key) \<Rightarrow>
     (case (if schedule_type = ''secondary''
            then pass_other c pass_thru device ''primary'' []
            else Inr []) of
        Inl e \<Rightarrow> Inl e
      | Inr schedule0 \<Rightarrow>
     (case generate_days parseday device schedule_type data (SCHEDULE_TO_DAY c) [] of
        Inl e \<Rightarrow> Inl e
      | Inr days \<Rightarrow>
          let schedule1 = dict_set (dict_set schedule0 key (PList [])) key (PList days)
          in if schedule_type = ''primary''
             then pass_other c pass_thru device ''secondary'' schedule1
             else Inr schedule1))))"

text \<open>
  \<open>async_set_schedule\<close>: the exception raised, if any, and the device handle afterwards.
  The payload of \<open>send\<close> is kept as the document \<open>{"sc": schedule}\<close> that \<open>json.dumps\<close>
  serialises.
\<close>

definition async_set_schedule :: "constants \<Rightarrow> pass_thru_fn \<Rightarrow> parseday_fn \<Rightarrow> worxcloud \<Rightarrow> (string \<rightharpoonup> pyval) \<Rightarrow> exn option \<times> worxcloud" where
  "async_set_schedule c pass_thru parseday device data =
     (case build_schedule c pass_thru parseday device data of
        Inl e \<Rightarrow> (Some e, device)
      | Inr schedule \<Rightarrow>
          (None, device\<lparr>calls := calls device @ [Send (PDict [(''sc'', PDict schedule)])]\<rparr>))"

text \<open>
  Modelled from the spec: \<open>pass_thru\<close> of the module \<open>utils\<close>, which is not part of the
  sources at hand. The spec has the schedule that is not being edited "copied through
  unchanged into the output document", whose shape is one \<open>[start, duration, boundary]\<close>
  triple per weekday: the stored days, in stored order, each as its triple with the
  boundary flag as 1 or 0. It raises nothing.
\<close>

definition utils_pass_thru :: pass_thru_fn where
  "utils_pass_thru stored =
     Inr (PList (map (\<lambda>(name, entry). PList [start entry, duration entry,
                                              PInt (if boundary entry then 1 else 0)]) stored))"

section \<open>Account setup\<close>

text \<open>The parts of a config entry that the setup reads.\<close>

record config_entry =
  entry_id :: string
  conf_email :: "string option"
  conf_password :: "string option"
  conf_type :: "string option"

text \<open>
  What the cloud does when called: the results of \<open>initialize\<close> and \<open>enumerate\<close> on the
  account handle, and for the device of each index the results of its own \<open>initialize\<close>
  and \<open>connect\<close> and of constructing its \<open>LandroidAPI\<close>.
\<close>

record cloud =
  initialize :: "exn + bool"
  enumerate :: "exn + int"
  device_initialize :: "nat \<Rightarrow> exn + bool"
  device_connect :: "nat \<Rightarrow> exn option"
  device_api :: "nat \<Rightarrow> exn option"

text \<open>One \<open>hass.data[DOMAIN][entry_id][device]\<close>: which of its two keys are set.\<close>

record slot =
  has_device :: bool
  has_api :: bool

text \<open>One \<open>hass.data[DOMAIN][entry_id]\<close>.\<close>

record account =
  count :: int
  acc_email :: "string option"
  acc_password :: "string option"
  acc_type :: string
  slots :: "nat \<rightharpoonup> slot"

text \<open>The loop over \<open>range(num_dev)\<close>, on the account's dict.\<close>

fun setup_devices :: "cloud \<Rightarrow> nat list \<Rightarrow> account \<Rightarrow> exn option \<times> account" where
  "setup_devices cl [] acc = (None, acc)"
| "setup_devices cl (device # rest) acc =
     (let acc1 = acc\<lparr>slots := (slots acc)(device \<mapsto> \<lparr>has_device = True, has_api = False\<rparr>)\<rparr>
      in case device_initialize cl device of
           Inl e \<Rightarrow> (Some e, acc1)
         | Inr _ \<Rightarrow>
             (case device_connect cl device of
                Some e \<Rightarrow> (Some e, acc1)
              | None \<Rightarrow>
                  (case device_api cl device of
                     Some e \<Rightarrow> (Some e, acc1)
                   | None \<Rightarrow>
                       setup_devices cl rest
                         (acc1\<lparr>slots := (slots acc1)(device \<mapsto> \<lparr>has_device = True, has_api = True\<rparr>)\<rparr>))))"

text \<open>
  \<open>_setup\<close>: its result (the value returned or the exception raised) and
  \<open>hass.data[DOMAIN]\<close> afterwards.
\<close>

definition setup_account :: "cloud \<Rightarrow> config_entry \<Rightarrow> (string \<rightharpoonup> account) \<Rightarrow> (exn + bool) \<times> (string \<rightharpoonup> account)" where
  "setup_account cl entry registry =
     (let cloud_type = (case conf_type entry of None \<Rightarrow> ''worx'' | Some t \<Rightarrow> t)
      in case initialize cl of
           Inl e \<Rightarrow> (Inl e, registry)
         | Inr auth \<Rightarrow>
             if \<not> auth then (Inr False, registry)
             else
               (case enumerate cl of
                  Inl err \<Rightarrow> (Inr False, registry)
                | Inr num_dev \<Rightarrow>
                    (case setup_devices cl [0..<nat num_dev]
                            \<lparr>count = num_dev, acc_email = conf_email entry,
                             acc_password = conf_password entry, acc_type = cloud_type,
                             slots = Map.empty\<rparr> of
                       (Some e, acc) \<Rightarrow> (Inl e, registry(entry_id entry \<mapsto> acc))
                     | (None, acc) \<Rightarrow> (Inr True, registry(entry_id entry \<mapsto> acc)))))"

section \<open>Sample values\<close>

text \<open>
  A small set of tables, a device, an entity and two requests, on which the theorems
  below are evaluated. \<open>sample_pass_thru\<close> and \<open>sample_parseday\<close> are stand-ins for the
  two helpers of \<open>utils\<close>, used at these sample inputs only.
\<close>

definition sample_days :: "day list" where
  "sample_days =
     [\<lparr>day_start = ''monday_start'', day_end = ''monday_end'', day_clear = ''monday''\<rparr>,
      \<lparr>day_start = ''tuesday_start'', day_end = ''tuesday_end'', day_clear = ''tuesday''\<rparr>,
      \<lparr>day_start = ''wednesday_start'', day_end = ''wednesday_end'', day_clear = ''wednesday''\<rparr>,
      \<lparr>day_start = ''thursday_start'', day_end = ''thursday_end'', day_clear = ''thursday''\<rparr>,
      \<lparr>day_start = ''friday_start'', day_end = ''friday_end'', day_clear = ''friday''\<rparr>,
      \<lparr>day_start = ''saturday_start'', day_end = ''saturday_end'', day_clear = ''saturday''\<rparr>,
      \<lparr>day_start = ''sunday_start'', day_end = ''sunday_end'', day_clear = ''sunday''\<rparr>]"

definition sample_constants :: constants where
  "sample_constants =
     \<lparr>STATE_INITIALIZING = ''initializing'', STATE_OFFLINE = ''offline'',
      STATE_RAINDELAY = ''rain_delay'',
      STATE_MAP = [1 \<mapsto> ''docked'', 7 \<mapsto> ''mowing''],
      ATTR_MAP_state = [(''battery_percent'', ''battery_level''), (''rssi'', ''rssi'')],
      ATTR_MAP_icon = ''mdi:robot-mower'',
      ERROR_TO_DESCRIPTION = [0 \<mapsto> ''No error'', 2 \<mapsto> ''Lifted'', 5 \<mapsto> ''Rain delay''],
      SCHEDULE_TYPE_MAP = [''primary'' \<mapsto> ''d'', ''secondary'' \<mapsto> ''dd''],
      SCHEDULE_TO_DAY = sample_days\<rparr>"

definition sample_week :: "pyval \<Rightarrow> (string \<times> sched_day) list" where
  "sample_week s =
     [(''monday'', \<lparr>start = s, duration = PInt 60, boundary = True\<rparr>),
      (''tuesday'', \<lparr>start = s, duration = PInt 90, boundary = False\<rparr>),
      (''wednesday'', \<lparr>start = s, duration = PInt 0, boundary = False\<rparr>),
      (''thursday'', \<lparr>start = s, duration = PInt 45, boundary = False\<rparr>),
      (''friday'', \<lparr>start = s, duration = PInt 30, boundary = True\<rparr>),
      (''saturday'', \<lparr>start = s, duration = PInt 0, boundary = False\<rparr>),
      (''sunday'', \<lparr>start = s, duration = PInt 120, boundary = False\<rparr>)]"

definition sample_device :: worxcloud where
  "sample_device =
     \<lparr>online = True, error = None, status = 7, serial = PStr ''SN1'',
      battery_percent = PInt 87,
      props = [''battery_percent'' \<mapsto> PInt 87, ''rssi'' \<mapsto> PNone, ''error'' \<mapsto> PNone],
      zone = Inr [0, 5, 0, 7],
      schedules = [(''primary'', sample_week (PStr ''09:00'')),
                   (''secondary'', sample_week (PStr ''15:00''))],
      calls = []\<rparr>"

definition sample_entity :: entity where
  "sample_entity =
     \<lparr>attributes = [''rssi'' \<mapsto> PInt (- 60)], available = False,
      attr_state = ''initializing'', icon = None, serialnumber = PNone,
      battery_level = PNone\<rparr>"

definition sample_select :: select_entity where
  "sample_select = \<lparr>attr_options = [''0'', ''2''], attr_current_option = None\<rparr>"

definition sample_pass_thru :: pass_thru_fn where
  "sample_pass_thru stored =
     Inr (PList (map (\<lambda>(name, entry). PList [start entry, duration entry,
                                              PInt (if boundary entry then 1 else 0)]) stored))"

definition sample_parseday :: parseday_fn where
  "sample_parseday d data =
     (case (data (day_start d), data (day_end d)) of
        (Some s, Some e) \<Rightarrow> Inr (PList [s, e, PInt 0])
      | _ \<Rightarrow> Inl (KeyError (PStr (day_end d))))"

text \<open>A primary edit of Monday only, and a secondary edit that gives Tuesday no end.\<close>

definition sample_edit :: "string \<rightharpoonup> pyval" where
  "sample_edit =
     [''type'' \<mapsto> PStr ''primary'', ''monday_start'' \<mapsto> PStr ''10:00'',
      ''monday_end'' \<mapsto> PStr ''11:30'']"

definition sample_incomplete :: "string \<rightharpoonup> pyval" where
  "sample_incomplete =
     [''type'' \<mapsto> PStr ''secondary'', ''tuesday_start'' \<mapsto> PStr ''10:00'']"

definition sample_cloud :: cloud where
  "sample_cloud =
     \<lparr>initialize = Inr True, enumerate = Inl (Raised ''no connection''),
      device_initialize = (\<lambda>i. Inr True), device_connect = (\<lambda>i. None),
      device_api = (\<lambda>i. None)\<rparr>"

definition sample_entry :: config_entry where
  "sample_entry =
     \<lparr>entry_id = ''entry1'', conf_email = Some ''owner@example.org'',
      conf_password = Some ''secret'', conf_type = None\<rparr>"

lemmas sample_defs =
  sample_days_def sample_constants_def sample_week_def sample_device_def sample_entity_def
  sample_select_def sample_pass_thru_def sample_parseday_def sample_edit_def
  sample_incomplete_def sample_cloud_def sample_entry_def

section \<open>Facts about the helpers\<close>

lemma upt_1_4: "[Suc 0..<4] = [Suc 0, 2, 3]"
  by (simp add: upt_rec)

lemma py_str_digits: "py_str (Suc 0) = ''1''" "py_str 2 = ''2''" "py_str 3 = ''3''"
  by (simp_all add: py_str.simps)

lemma map_of_dict_set: "map_of (dict_set d k v) = (map_of d)(k \<mapsto> v)"
  by (induction d) auto

lemma attributes_after:
  "attributes (snd (async_update c master self)) =
     (case ERROR_TO_DESCRIPTION c (error_or_0 (error master)) of
        None \<Rightarrow> attributes self
      | Some descr \<Rightarrow>
          attributes self ++
            (copy_props (props master) (ATTR_MAP_state c) Map.empty)(''error'' \<mapsto> PStr descr))"
  by (simp add: async_update_def zone_mapping_def Let_def split: option.splits sum.splits)

text \<open>Whatever \<open>copy_props\<close> leaves under a name was there before or is a copied property.\<close>

lemma copy_props_source:
  "copy_props m tbl data a = Some v \<Longrightarrow>
   data a = Some v \<or> (\<exists>p. (p, a) \<in> set tbl \<and> m p = Some v \<and> v \<noteq> PNone)"
proof (induction tbl arbitrary: data)
  case Nil
  then show ?case by simp
next
  case (Cons pa tbl)
  obtain p a' where pa: "pa = (p, a')" by (cases pa)
  show ?case
  proof (cases "m p")
    case None
    with Cons pa show ?thesis by fastforce
  next
    case (Some w)
    show ?thesis
    proof (cases "w = PNone")
      case True
      with Cons pa Some show ?thesis by fastforce
    next
      case False
      with Cons.prems pa Some
      have "copy_props m tbl (data(a' \<mapsto> w)) a = Some v" by simp
      from Cons.IH [OF this] pa Some False show ?thesis
        by (auto split: if_splits)
    qed
  qed
qed

text \<open>The day loop splits at any point of the weekday table.\<close>

lemma generate_days_append:
  "generate_days parseday device t data (xs @ ys) acc =
     (case generate_days parseday device t data xs acc of
        Inl e \<Rightarrow> Inl e
      | Inr acc' \<Rightarrow> generate_days parseday device t data ys acc')"
  by (induction xs arbitrary: acc) (auto split: sum.splits)

lemma generate_days_incomplete:
  "\<exists>d \<in> set ds. data (day_start d) \<noteq> None \<and> data (day_end d) = None \<Longrightarrow>
   \<exists>e. generate_days parseday device t data ds acc = Inl e"
proof (induction ds arbitrary: acc)
  case Nil
  then show ?case by simp
next
  case (Cons d ds)
  then show ?case
    by (cases "data (day_start d) \<noteq> None \<and> data (day_end d) = None")
       (auto split: sum.splits)
qed

text \<open>A loop that completes has appended one element per weekday, in table order.\<close>

lemma generate_days_result:
  "generate_days parseday device t data ds acc = Inr out \<Longrightarrow>
   \<exists>new. out = acc @ new \<and> length new = length ds \<and>
     (\<forall>i < length ds. data (day_start (ds ! i)) = None \<longrightarrow>
        stored_triple device t (ds ! i) = Inr (new ! i))"
proof (induction ds arbitrary: acc out)
  case Nil
  then show ?case by simp
next
  case (Cons d ds)
  from Cons.prems obtain cur where
    cur: "data (day_start d) = None \<longrightarrow> stored_triple device t d = Inr cur"
    and rest: "generate_days parseday device t data ds (acc @ [cur]) = Inr out"
    by (auto split: sum.splits if_splits)
  from Cons.IH [OF rest] obtain new where
    new: "out = (acc @ [cur]) @ new" "length new = length ds"
      "\<forall>i < length ds. data (day_start (ds ! i)) = None \<longrightarrow>
         stored_triple device t (ds ! i) = Inr (new ! i)"
    by blast
  have "\<forall>i < length (d # ds). data (day_start ((d # ds) ! i)) = None \<longrightarrow>
         stored_triple device t ((d # ds) ! i) = Inr ((cur # new) ! i)"
    using new(3) cur by (auto simp: nth_Cons split: nat.splits)
  with new(1,2) show ?case
    by (intro exI [of _ "cur # new"]) simp
qed

lemma stored_triple_Inr:
  "stored_triple device t d = Inr x \<Longrightarrow>
   \<exists>stored entry. map_of (schedules device) t = Some stored \<and>
      map_of stored (day_clear d) = Some entry \<and>
      x = PList [start entry, duration entry, PInt (if boundary entry then 1 else 0)]"
  by (auto simp: stored_triple_def getitem_def split: option.splits)

lemma pass_other_Inr:
  "pass_other c pass_thru device which schedule = Inr s \<Longrightarrow>
   \<exists>stored v k. map_of (schedules device) which = Some stored \<and> pass_thru stored = Inr v \<and>
      SCHEDULE_TYPE_MAP c which = Some k \<and> s = dict_set schedule k v"
  by (auto simp: pass_other_def getitem_def split: option.splits sum.splits)

lemma build_schedule_incomplete:
  "\<exists>d \<in> set (SCHEDULE_TO_DAY c). data (day_start d) \<noteq> None \<and> data (day_end d) = None \<Longrightarrow>
   \<exists>e. build_schedule c pass_thru parseday device data = Inl e"
  using generate_days_incomplete [of "SCHEDULE_TO_DAY c" data]
  apply (simp add: build_schedule_def split: option.splits sum.splits prod.splits)
  apply (metis sum.distinct(1))
  done

lemma async_set_schedule_None:
  "async_set_schedule c pass_thru parseday device data = (None, device') \<Longrightarrow>
   \<exists>schedule. build_schedule c pass_thru parseday device data = Inr schedule \<and>
     device' = device\<lparr>calls := calls device @ [Send (PDict [(''sc'', PDict schedule)])]\<rparr>"
  by (auto simp: async_set_schedule_def split: sum.splits)

lemma build_schedule_primary:
  assumes "build_schedule c pass_thru parseday device data = Inr schedule"
    and "data ''type'' = Some (PStr ''primary'')"
  shows "\<exists>kp ks days stored other.
     SCHEDULE_TYPE_MAP c ''primary'' = Some kp \<and> SCHEDULE_TYPE_MAP c ''secondary'' = Some ks \<and>
     generate_days parseday device ''primary'' data (SCHEDULE_TO_DAY c) [] = Inr days \<and>
     map_of (schedules device) ''secondary'' = Some stored \<and> pass_thru stored = Inr other \<and>
     schedule = dict_set [(kp, PList days)] ks other"
  using assms
  by (auto simp: build_schedule_def dest!: pass_other_Inr split: option.splits sum.splits)

lemma build_schedule_secondary:
  assumes "build_schedule c pass_thru parseday device data = Inr schedule"
    and "data ''type'' = Some (PStr ''secondary'')"
  shows "\<exists>kp ks days stored other.
     SCHEDULE_TYPE_MAP c ''primary'' = Some kp \<and> SCHEDULE_TYPE_MAP c ''secondary'' = Some ks \<and>
     generate_days parseday device ''secondary'' data (SCHEDULE_TO_DAY c) [] = Inr days \<and>
     map_of (schedules device) ''primary'' = Some stored \<and> pass_thru stored = Inr other \<and>
     schedule = dict_set [(kp, other)] ks (PList days)"
  using assms
  by (auto simp: build_schedule_def dest!: pass_other_Inr
           split: option.splits sum.splits if_splits)

lemma build_schedule_edited_key:
  assumes "build_schedule c pass_thru parseday device data = Inr schedule"
    and "data ''type'' = Some (PStr t)"
    and "t = ''primary'' \<longrightarrow> SCHEDULE_TYPE_MAP c ''secondary'' \<noteq> SCHEDULE_TYPE_MAP c ''primary''"
  shows "\<exists>k days. SCHEDULE_TYPE_MAP c t = Some k \<and>
     generate_days parseday device t data (SCHEDULE_TO_DAY c) [] = Inr days \<and>
     map_of schedule k = Some (PList days)"
  using assms
  by (auto simp: build_schedule_def map_of_dict_set Let_def dest!: pass_other_Inr
           split: option.splits sum.splits if_splits)

text \<open>The document of a completed edit, for any \<open>pass_thru\<close>.\<close>

lemma schedule_document_shape:
  assumes "async_set_schedule c pass_thru parseday device data = (None, device')"
    and "data ''type'' = Some (PStr t)"
    and "t = ''primary'' \<or> t = ''secondary''"
    and "SCHEDULE_TYPE_MAP c ''primary'' \<noteq> SCHEDULE_TYPE_MAP c ''secondary''"
  shows "\<exists>kp ks days stored other.
     SCHEDULE_TYPE_MAP c ''primary'' = Some kp \<and> SCHEDULE_TYPE_MAP c ''secondary'' = Some ks \<and>
     generate_days parseday device t data (SCHEDULE_TO_DAY c) [] = Inr days \<and>
     map_of (schedules device) (if t = ''primary'' then ''secondary'' else ''primary'') = Some stored \<and>
     pass_thru stored = Inr other \<and>
     device' = device\<lparr>calls := calls device @
        [Send (PDict [(''sc'', PDict (if t = ''primary'' then [(kp, PList days), (ks, other)]
                                     else [(kp, other), (ks, PList days)]))])]\<rparr>"
proof -
  from async_set_schedule_None [OF assms(1)] obtain schedule where
    b: "build_schedule c pass_thru parseday device data = Inr schedule"
    and d: "device' = device\<lparr>calls := calls device @ [Send (PDict [(''sc'', PDict schedule)])]\<rparr>"
    by blast
  from assms(3) show ?thesis
  proof
    assume t: "t = ''primary''"
    from build_schedule_primary [OF b] assms(2) t obtain kp ks days stored other where
      "SCHEDULE_TYPE_MAP c ''primary'' = Some kp" "SCHEDULE_TYPE_MAP c ''secondary'' = Some ks"
      "generate_days parseday device ''primary'' data (SCHEDULE_TO_DAY c) [] = Inr days"
      "map_of (schedules device) ''secondary'' = Some stored" "pass_thru stored = Inr other"
      "schedule = dict_set [(kp, PList days)] ks other"
      by blast
    with assms(4) d t show ?thesis by auto
  next
    assume t: "t = ''secondary''"
    from build_schedule_secondary [OF b] assms(2) t obtain kp ks days stored other where
      "SCHEDULE_TYPE_MAP c ''primary'' = Some kp" "SCHEDULE_TYPE_MAP c ''secondary'' = Some ks"
      "generate_days parseday device ''secondary'' data (SCHEDULE_TO_DAY c) [] = Inr days"
      "map_of (schedules device) ''primary'' = Some stored" "pass_thru stored = Inr other"
      "schedule = dict_set [(kp, other)] ks (PList days)"
      by blast
    with assms(4) d t show ?thesis by auto
  qed
qed

section \<open>Operating state\<close>

text \<open>
  C1. The operating state is Offline whenever the handle is not online, whatever its
  error and status; otherwise Error for an error code that is present, positive and
  different from 5; otherwise RainDelay for the error code 5; otherwise the entry of the
  status table for the raw status code, and Initializing when the table has no such
  entry. The computation raises nothing, and an update that completes stores exactly
  this state.
\<close>

theorem derive_state_precedence:
  "derive_state c master =
     (if \<not> online master then STATE_OFFLINE c
      else if (\<exists>e. error master = Some e \<and> 0 < e \<and> e \<noteq> 5) then STATE_ERROR
      else if error master = Some 5 then STATE_RAINDELAY c
      else (case STATE_MAP c (status master) of
              Some s \<Rightarrow> s
            | None \<Rightarrow> STATE_INITIALIZING c))
   \<and> (\<forall>self self'. async_update c master self = (None, self')
         \<longrightarrow> attr_state self' = derive_state c master)"
proof
  show "derive_state c master =
     (if \<not> online master then STATE_OFFLINE c
      else if (\<exists>e. error master = Some e \<and> 0 < e \<and> e \<noteq> 5) then STATE_ERROR
      else if error master = Some 5 then STATE_RAINDELAY c
      else (case STATE_MAP c (status master) of
              Some s \<Rightarrow> s
            | None \<Rightarrow> STATE_INITIALIZING c))"
    by (cases "error master") (auto simp: derive_state_def)
next
  show "\<forall>self self'. async_update c master self = (None, self')
         \<longrightarrow> attr_state self' = derive_state c master"
    by (auto simp: async_update_def zone_mapping_def Let_def split: option.splits sum.splits)
qed

theorem derive_state_precedence_witness:
  "async_update sample_constants (sample_device\<lparr>status := 99\<rparr>) sample_entity =
     (None, snd (async_update sample_constants (sample_device\<lparr>status := 99\<rparr>) sample_entity))
   \<and> attr_state (snd (async_update sample_constants (sample_device\<lparr>status := 99\<rparr>) sample_entity))
       = ''initializing''
   \<and> derive_state sample_constants (sample_device\<lparr>online := False, error := Some 2\<rparr>) = ''offline''
   \<and> derive_state sample_constants (sample_device\<lparr>error := Some 2\<rparr>) = ''error''
   \<and> derive_state sample_constants (sample_device\<lparr>error := Some 5\<rparr>) = ''rain_delay''
   \<and> derive_state sample_constants sample_device = ''mowing''"
proof -
  have run: "async_update sample_constants (sample_device\<lparr>status := 99\<rparr>) sample_entity =
     (None, snd (async_update sample_constants (sample_device\<lparr>status := 99\<rparr>) sample_entity))"
    by (simp add: async_update_def zone_mapping_def sample_defs error_or_0_def map_add_def)
  from derive_state_precedence [of sample_constants "sample_device\<lparr>status := 99\<rparr>"] run
  have "attr_state (snd (async_update sample_constants (sample_device\<lparr>status := 99\<rparr>) sample_entity))
      = derive_state sample_constants (sample_device\<lparr>status := 99\<rparr>)"
    by blast
  moreover have "derive_state sample_constants (sample_device\<lparr>status := 99\<rparr>) = ''initializing''"
    using derive_state_precedence [of sample_constants "sample_device\<lparr>status := 99\<rparr>"]
    by (simp add: sample_defs)
  moreover have "derive_state sample_constants (sample_device\<lparr>online := False, error := Some 2\<rparr>)
      = ''offline''"
    using derive_state_precedence [of sample_constants "sample_device\<lparr>online := False, error := Some 2\<rparr>"]
    by (simp add: sample_defs)
  moreover have "derive_state sample_constants (sample_device\<lparr>error := Some 2\<rparr>) = ''error''"
    using derive_state_precedence [of sample_constants "sample_device\<lparr>error := Some 2\<rparr>"]
    by (simp add: sample_defs STATE_ERROR_def)
  moreover have "derive_state sample_constants (sample_device\<lparr>error := Some 5\<rparr>) = ''rain_delay''"
    using derive_state_precedence [of sample_constants "sample_device\<lparr>error := Some 5\<rparr>"]
    by (simp add: sample_defs)
  moreover have "derive_state sample_constants sample_device = ''mowing''"
    using derive_state_precedence [of sample_constants sample_device]
    by (simp add: sample_defs)
  ultimately show ?thesis using run by simp
qed

section \<open>Attribute shadow\<close>

text \<open>
  C7, as amended. After an update cycle, an attribute other than \<open>"error"\<close> differs
  from its previous value only if the table maps some property to it that the handle has
  with a value other than \<open>None\<close>, and it then holds such a value: entries whose source
  properties are absent or \<open>None\<close> keep their previous value, and names outside the table
  are left alone. The attribute \<open>"error"\<close> is excepted, since every update that finds
  the error description writes it.
\<close>

theorem attributes_sticky:
  assumes "a \<noteq> ''error''"
    and "attributes (snd (async_update c master self)) a \<noteq> attributes self a"
  shows "\<exists>p v. (p, a) \<in> set (ATTR_MAP_state c) \<and> props master p = Some v \<and> v \<noteq> PNone \<and>
           attributes (snd (async_update c master self)) a = Some v"
proof (cases "ERROR_TO_DESCRIPTION c (error_or_0 (error master))")
  case None
  with assms(2) show ?thesis by (simp add: attributes_after)
next
  case (Some descr)
  let ?data = "copy_props (props master) (ATTR_MAP_state c) Map.empty"
  from Some assms(1)
  have eq: "attributes (snd (async_update c master self)) a =
      (case ?data a of None \<Rightarrow> attributes self a | Some v \<Rightarrow> Some v)"
    by (simp add: attributes_after map_add_def)
  with assms(2) obtain v where v: "?data a = Some v"
    by (cases "?data a") auto
  from copy_props_source [OF v] obtain p where
    "(p, a) \<in> set (ATTR_MAP_state c)" "props master p = Some v" "v \<noteq> PNone"
    by auto
  with eq v show ?thesis by auto
qed

theorem attributes_sticky_witness:
  "''battery_level'' \<noteq> ''error'' \<and>
   attributes (snd (async_update sample_constants sample_device sample_entity)) ''battery_level''
     \<noteq> attributes sample_entity ''battery_level'' \<and>
   (\<exists>p v. (p, ''battery_level'') \<in> set (ATTR_MAP_state sample_constants) \<and>
      props sample_device p = Some v \<and> v \<noteq> PNone \<and>
      attributes (snd (async_update sample_constants sample_device sample_entity))
        ''battery_level'' = Some v)"
proof -
  have h1: "''battery_level'' \<noteq> ''error''" by simp
  have h2: "attributes (snd (async_update sample_constants sample_device sample_entity))
      ''battery_level'' \<noteq> attributes sample_entity ''battery_level''"
    by (simp add: attributes_after sample_defs error_or_0_def map_add_def)
  from attributes_sticky [OF h1 h2] h1 h2 show ?thesis by blast
qed

text \<open>
  The claim as first stated fails at the attribute \<open>"error"\<close>. With a table that maps
  nothing to \<open>"error"\<close>, the update gives that attribute a value it did not have; with a
  table that maps the property \<open>error\<close> to it, the update overwrites it although the
  property holds \<open>None\<close>.
\<close>

theorem attributes_error_counterexample:
  "''error'' \<notin> snd ` set (ATTR_MAP_state sample_constants) \<and>
   attributes sample_entity ''error'' = None \<and>
   attributes (snd (async_update sample_constants sample_device sample_entity)) ''error''
     = Some (PStr ''No error'') \<and>
   props sample_device ''error'' = Some PNone \<and>
   attributes (snd (async_update
       (sample_constants\<lparr>ATTR_MAP_state := [(''error'', ''error'')]\<rparr>)
       sample_device sample_entity)) ''error''
     = Some (PStr ''No error'')"
  by (simp add: attributes_after sample_defs error_or_0_def map_add_def)

text \<open>
  C8. The attribute \<open>"error"\<close> is the table's description of the error code. An absent
  code and the code 0 are both looked up as 0, so they give the same description, that
  of the entry 0; no other entry stands for an absent code.
\<close>

theorem error_description_lookup:
  assumes "ERROR_TO_DESCRIPTION c 0 = Some no_error"
  shows "(error master = None \<or> error master = Some 0 \<longrightarrow>
            attributes (snd (async_update c master self)) ''error'' = Some (PStr no_error))
       \<and> (\<forall>n d. error master = Some n \<and> ERROR_TO_DESCRIPTION c n = Some d \<longrightarrow>
            attributes (snd (async_update c master self)) ''error'' = Some (PStr d))"
  using assms by (auto simp: attributes_after error_or_0_def)

theorem error_description_lookup_witness:
  "ERROR_TO_DESCRIPTION sample_constants 0 = Some ''No error'' \<and>
   error sample_device = None \<and>
   attributes (snd (async_update sample_constants sample_device sample_entity)) ''error''
     = Some (PStr ''No error'') \<and>
   attributes (snd (async_update sample_constants (sample_device\<lparr>error := Some 0\<rparr>) sample_entity))
     ''error'' = Some (PStr ''No error'') \<and>
   attributes (snd (async_update sample_constants (sample_device\<lparr>error := Some 2\<rparr>) sample_entity))
     ''error'' = Some (PStr ''Lifted'')"
proof -
  have h: "ERROR_TO_DESCRIPTION sample_constants 0 = Some ''No error''"
    by (simp add: sample_defs)
  have h2: "ERROR_TO_DESCRIPTION sample_constants 2 = Some ''Lifted''"
    by (simp add: sample_defs)
  from error_description_lookup [OF h, of sample_device sample_entity]
       error_description_lookup [OF h, of "sample_device\<lparr>error := Some 0\<rparr>" sample_entity]
       error_description_lookup [OF h, of "sample_device\<lparr>error := Some 2\<rparr>" sample_entity]
       h h2
  show ?thesis by (simp add: sample_device_def)
qed

section \<open>Zone options\<close>

text \<open>
  C5. For a zone array of exactly four slots, the options become \<open>"0"\<close> followed by
  \<open>str(i)\<close> for each \<open>i\<close> of 1, 2, 3 whose slot is not zero, in increasing order; so
  they always begin with \<open>"0"\<close>, and \<open>[0, 5, 0, 7]\<close> gives \<open>["0", "1", "3"]\<close>.
\<close>

theorem update_zone_options:
  "zone device = Inr zones \<Longrightarrow> length zones = 4 \<Longrightarrow>
   attr_options (update_zone device self) =
     ''0'' # [py_str i. i \<leftarrow> [1, 2, 3], zones ! i \<noteq> 0]"
  by (simp add: update_zone_def upt_1_4)

theorem update_zone_options_witness:
  "zone sample_device = Inr [0, 5, 0, 7] \<and> length [0, 5, 0, 7 :: int] = 4 \<and>
   attr_options (update_zone sample_device sample_select) = [''0'', ''1'', ''3'']"
  using update_zone_options [of sample_device "[0, 5, 0, 7]" sample_select]
  by (simp add: sample_device_def py_str_digits)

text \<open>
  C6. When the zone array has a length other than four, or reading it raises, the zone
  update leaves the select entity, and so its stored options, exactly as it was; the
  update returns normally in either case.
\<close>

theorem update_zone_ignored:
  "(case zone device of Inl e \<Rightarrow> True | Inr zones \<Rightarrow> length zones \<noteq> 4) \<Longrightarrow>
   update_zone device self = self"
  by (auto simp: update_zone_def split: sum.splits)

theorem update_zone_ignored_witness:
  "update_zone (sample_device\<lparr>zone := Inl (Raised ''AttributeError'')\<rparr>) sample_select
     = sample_select
   \<and> update_zone (sample_device\<lparr>zone := Inr [0, 5, 7]\<rparr>) sample_select = sample_select
   \<and> attr_options sample_select = [''0'', ''2'']"
  using update_zone_ignored [of "sample_device\<lparr>zone := Inl (Raised ''AttributeError'')\<rparr>" sample_select]
        update_zone_ignored [of "sample_device\<lparr>zone := Inr [0, 5, 7]\<rparr>" sample_select]
  by (simp add: sample_select_def)

section \<open>Return to base\<close>

text \<open>
  C10. Return-to-base, and stop which delegates to it, calls \<open>home\<close> on the device
  exactly when the entity's state is neither Docked nor Returning; in those two states
  nothing is called, and the entity is unchanged in every case.
\<close>

theorem return_to_base_dispatch:
  "(state self \<noteq> STATE_DOCKED \<and> state self \<noteq> STATE_RETURNING \<longrightarrow>
      async_return_to_base device self = (self, device\<lparr>calls := calls device @ [Home]\<rparr>))
   \<and> (state self = STATE_DOCKED \<or> state self = STATE_RETURNING \<longrightarrow>
      async_return_to_base device self = (self, device))
   \<and> async_stop device self = async_return_to_base device self"
  by (auto simp: async_return_to_base_def async_stop_def)

theorem return_to_base_dispatch_witness:
  "async_return_to_base sample_device (sample_entity\<lparr>attr_state := ''mowing''\<rparr>)
     = (sample_entity\<lparr>attr_state := ''mowing''\<rparr>, sample_device\<lparr>calls := [Home]\<rparr>)
   \<and> async_stop sample_device (sample_entity\<lparr>attr_state := ''docked''\<rparr>)
     = (sample_entity\<lparr>attr_state := ''docked''\<rparr>, sample_device)
   \<and> async_return_to_base sample_device (sample_entity\<lparr>attr_state := ''returning''\<rparr>)
     = (sample_entity\<lparr>attr_state := ''returning''\<rparr>, sample_device)"
  using return_to_base_dispatch [of "sample_entity\<lparr>attr_state := ''mowing''\<rparr>" sample_device]
        return_to_base_dispatch [of "sample_entity\<lparr>attr_state := ''docked''\<rparr>" sample_device]
        return_to_base_dispatch [of "sample_entity\<lparr>attr_state := ''returning''\<rparr>" sample_device]
  by (simp add: state_def STATE_DOCKED_def STATE_RETURNING_def sample_device_def)

section \<open>Account setup\<close>

text \<open>
  C9. When \<open>initialize\<close> returns a false result, or returns a true one and \<open>enumerate\<close>
  then raises, the setup returns \<open>False\<close>, raises nothing, and leaves the registry of
  accounts and device adapters as it was.
\<close>

theorem setup_aborts:
  "initialize cl = Inr False \<or> (initialize cl = Inr True \<and> enumerate cl = Inl err) \<Longrightarrow>
   setup_account cl entry registry = (Inr False, registry)"
  by (auto simp: setup_account_def)

theorem setup_aborts_witness:
  "setup_account sample_cloud sample_entry Map.empty = (Inr False, Map.empty)
   \<and> setup_account (sample_cloud\<lparr>initialize := Inr False\<rparr>) sample_entry Map.empty
       = (Inr False, Map.empty)"
  using setup_aborts [of sample_cloud "Raised ''no connection''" sample_entry Map.empty]
        setup_aborts [of "sample_cloud\<lparr>initialize := Inr False\<rparr>" "Raised ''no connection''"
                         sample_entry Map.empty]
  by (simp add: sample_cloud_def)

section \<open>Schedule edits\<close>

text \<open>
  C2, as amended. When some weekday of a schedule edit has a start time and no end time, the
  operation ends in an exception, sends nothing and leaves the device handle, with its
  stored schedules, as it was. For a request of a known type, the exception is the
  validation error \<open>No end time specified for <day>\<close> of the first such weekday in table
  order, whenever the steps before that weekday ran through (the pass-through of the
  primary schedule for a secondary edit, and the weekdays before it) without raising.
\<close>

theorem schedule_missing_end_aborts:
  "((\<exists>d \<in> set (SCHEDULE_TO_DAY c). data (day_start d) \<noteq> None \<and> data (day_end d) = None) \<longrightarrow>
      (\<exists>e. async_set_schedule c pass_thru parseday device data = (Some e, device)))
   \<and> (data ''type'' = Some (PStr t) \<and> SCHEDULE_TYPE_MAP c t = Some k \<and>
        (t = ''secondary'' \<longrightarrow> (\<exists>s. pass_other c pass_thru device ''primary'' [] = Inr s)) \<and>
        SCHEDULE_TO_DAY c = pre @ d # post \<and>
        generate_days parseday device t data pre [] = Inr acc \<and>
        data (day_start d) \<noteq> None \<and> data (day_end d) = None \<longrightarrow>
      async_set_schedule c pass_thru parseday device data =
        (Some (HomeAssistantError (''No end time specified for '' @ day_clear d)), device))"
proof (intro conjI impI)
  assume "\<exists>d \<in> set (SCHEDULE_TO_DAY c). data (day_start d) \<noteq> None \<and> data (day_end d) = None"
  from build_schedule_incomplete [OF this]
  obtain e where "build_schedule c pass_thru parseday device data = Inl e" by blast
  then show "\<exists>e. async_set_schedule c pass_thru parseday device data = (Some e, device)"
    by (simp add: async_set_schedule_def)
next
  assume a: "data ''type'' = Some (PStr t) \<and> SCHEDULE_TYPE_MAP c t = Some k \<and>
        (t = ''secondary'' \<longrightarrow> (\<exists>s. pass_other c pass_thru device ''primary'' [] = Inr s)) \<and>
        SCHEDULE_TO_DAY c = pre @ d # post \<and>
        generate_days parseday device t data pre [] = Inr acc \<and>
        data (day_start d) \<noteq> None \<and> data (day_end d) = None"
  then have gen: "generate_days parseday device t data (SCHEDULE_TO_DAY c) [] =
      Inl (HomeAssistantError (''No end time specified for '' @ day_clear d))"
    by (simp add: generate_days_append)
  from a gen have "build_schedule c pass_thru parseday device data =
      Inl (HomeAssistantError (''No end time specified for '' @ day_clear d))"
    by (auto simp: build_schedule_def)
  then show "async_set_schedule c pass_thru parseday device data =
        (Some (HomeAssistantError (''No end time specified for '' @ day_clear d)), device)"
    by (simp add: async_set_schedule_def)
qed

theorem schedule_missing_end_aborts_witness:
  "(\<exists>d \<in> set (SCHEDULE_TO_DAY sample_constants).
      sample_incomplete (day_start d) \<noteq> None \<and> sample_incomplete (day_end d) = None)
   \<and> async_set_schedule sample_constants sample_pass_thru sample_parseday sample_device
        sample_incomplete
      = (Some (HomeAssistantError ''No end time specified for tuesday''), sample_device)"
proof -
  have bad: "\<exists>d \<in> set (SCHEDULE_TO_DAY sample_constants).
      sample_incomplete (day_start d) \<noteq> None \<and> sample_incomplete (day_end d) = None"
    by (simp add: sample_constants_def sample_days_def sample_incomplete_def)
  have pre: "generate_days sample_parseday sample_device ''secondary'' sample_incomplete
      [\<lparr>day_start = ''monday_start'', day_end = ''monday_end'', day_clear = ''monday''\<rparr>] []
      = Inr [PList [PStr ''15:00'', PInt 60, PInt 1]]"
    by (simp add: sample_incomplete_def sample_device_def sample_week_def stored_triple_def
                  getitem_def)
  have pass: "\<exists>s. pass_other sample_constants sample_pass_thru sample_device ''primary'' [] = Inr s"
    by (simp add: pass_other_def getitem_def sample_device_def sample_constants_def
                  sample_pass_thru_def)
  have split: "SCHEDULE_TO_DAY sample_constants =
      [\<lparr>day_start = ''monday_start'', day_end = ''monday_end'', day_clear = ''monday''\<rparr>]
      @ \<lparr>day_start = ''tuesday_start'', day_end = ''tuesday_end'', day_clear = ''tuesday''\<rparr>
      # drop 2 sample_days"
    by (simp add: sample_constants_def sample_days_def)
  have ty: "sample_incomplete ''type'' = Some (PStr ''secondary'')"
       "SCHEDULE_TYPE_MAP sample_constants ''secondary'' = Some ''dd''"
       "sample_incomplete ''tuesday_start'' \<noteq> None" "sample_incomplete ''tuesday_end'' = None"
    by (simp_all add: sample_incomplete_def sample_constants_def)
  from schedule_missing_end_aborts [of sample_constants sample_incomplete sample_pass_thru
         sample_parseday sample_device "''secondary''" "''dd''"
         "[\<lparr>day_start = ''monday_start'', day_end = ''monday_end'', day_clear = ''monday''\<rparr>]"
         "\<lparr>day_start = ''tuesday_start'', day_end = ''tuesday_end'', day_clear = ''tuesday''\<rparr>"
         "drop 2 sample_days" "[PList [PStr ''15:00'', PInt 60, PInt 1]]"]
       bad pre pass split ty
  show ?thesis by simp
qed

text \<open>
  The claim as first stated, that the exception is always the validation error, fails:
  in a secondary edit that gives Tuesday a start and no end, on a device that stores no
  secondary schedule, the loop reaches Monday first, which the request does not mention,
  and reading its stored day raises \<open>KeyError\<close> before Tuesday is looked at.
\<close>

theorem schedule_missing_end_counterexample:
  "sample_incomplete ''tuesday_start'' \<noteq> None \<and> sample_incomplete ''tuesday_end'' = None \<and>
   async_set_schedule sample_constants sample_pass_thru sample_parseday
       (sample_device\<lparr>schedules := [(''primary'', sample_week (PStr ''09:00''))]\<rparr>)
       sample_incomplete
     = (Some (KeyError (PStr ''secondary'')),
        sample_device\<lparr>schedules := [(''primary'', sample_week (PStr ''09:00''))]\<rparr>)"
  by (simp add: async_set_schedule_def build_schedule_def pass_other_def stored_triple_def
                getitem_def sample_defs)

text \<open>
  C3. A schedule edit of type primary or secondary that completes sends one document
  with the single top-level key \<open>"sc"\<close>, holding an entry for each of the two types
  (their wire keys being different): the primary key first, then the secondary key. The
  entry of the edited type is the list the day loop produced. The entry of the other
  type is that type's stored schedule copied through unchanged: the stored triple of
  each of its weekdays, in stored order, whatever the request holds. The device's stored
  schedules stay as they were.
\<close>

theorem schedule_document_both_types:
  assumes "async_set_schedule c utils_pass_thru parseday device data = (None, device')"
    and "data ''type'' = Some (PStr t)"
    and "t = ''primary'' \<or> t = ''secondary''"
    and "SCHEDULE_TYPE_MAP c ''primary'' \<noteq> SCHEDULE_TYPE_MAP c ''secondary''"
  shows "\<exists>kp ks days stored.
     SCHEDULE_TYPE_MAP c ''primary'' = Some kp \<and> SCHEDULE_TYPE_MAP c ''secondary'' = Some ks \<and>
     generate_days parseday device t data (SCHEDULE_TO_DAY c) [] = Inr days \<and>
     map_of (schedules device) (if t = ''primary'' then ''secondary'' else ''primary'') = Some stored \<and>
     device' = device\<lparr>calls := calls device @
        [Send (PDict [(''sc'', PDict
           (if t = ''primary''
            then [(kp, PList days),
                  (ks, PList (map (\<lambda>(name, entry).
                          PList [start entry, duration entry,
                                 PInt (if boundary entry then 1 else 0)]) stored))]
            else [(kp, PList (map (\<lambda>(name, entry).
                          PList [start entry, duration entry,
                                 PInt (if boundary entry then 1 else 0)]) stored)),
                  (ks, PList days)]))])]\<rparr>"
proof -
  from schedule_document_shape [OF assms] obtain kp ks days stored other where
    keys: "SCHEDULE_TYPE_MAP c ''primary'' = Some kp" "SCHEDULE_TYPE_MAP c ''secondary'' = Some ks"
    and days: "generate_days parseday device t data (SCHEDULE_TO_DAY c) [] = Inr days"
    and stored: "map_of (schedules device)
        (if t = ''primary'' then ''secondary'' else ''primary'') = Some stored"
    and other: "utils_pass_thru stored = Inr other"
    and sent: "device' = device\<lparr>calls := calls device @
        [Send (PDict [(''sc'', PDict (if t = ''primary'' then [(kp, PList days), (ks, other)]
                                     else [(kp, other), (ks, PList days)]))])]\<rparr>"
    by blast
  from other have "other = PList (map (\<lambda>(name, entry).
      PList [start entry, duration entry, PInt (if boundary entry then 1 else 0)]) stored)"
    by (simp add: utils_pass_thru_def)
  with keys days stored sent show ?thesis by blast
qed

theorem schedule_document_both_types_witness:
  "async_set_schedule sample_constants utils_pass_thru sample_parseday sample_device sample_edit
     = (None, sample_device\<lparr>calls :=
         [Send (PDict [(''sc'', PDict
            [(''d'', PList [PList [PStr ''10:00'', PStr ''11:30'', PInt 0],
                           PList [PStr ''09:00'', PInt 90, PInt 0],
                           PList [PStr ''09:00'', PInt 0, PInt 0],
                           PList [PStr ''09:00'', PInt 45, PInt 0],
                           PList [PStr ''09:00'', PInt 30, PInt 1],
                           PList [PStr ''09:00'', PInt 0, PInt 0],
                           PList [PStr ''09:00'', PInt 120, PInt 0]]),
             (''dd'', PList [PList [PStr ''15:00'', PInt 60, PInt 1],
                            PList [PStr ''15:00'', PInt 90, PInt 0],
                            PList [PStr ''15:00'', PInt 0, PInt 0],
                            PList [PStr ''15:00'', PInt 45, PInt 0],
                            PList [PStr ''15:00'', PInt 30, PInt 1],
                            PList [PStr ''15:00'', PInt 0, PInt 0],
                            PList [PStr ''15:00'', PInt 120, PInt 0]])])])]\<rparr>)
   \<and> (\<exists>days stored.
         generate_days sample_parseday sample_device ''primary'' sample_edit
           (SCHEDULE_TO_DAY sample_constants) [] = Inr days \<and>
         map_of (schedules sample_device) ''secondary'' = Some stored \<and>
         snd (async_set_schedule sample_constants utils_pass_thru sample_parseday sample_device
                sample_edit)
           = sample_device\<lparr>calls := calls sample_device @
               [Send (PDict [(''sc'', PDict
                  [(''d'', PList days),
                   (''dd'', PList (map (\<lambda>(name, entry).
                        PList [start entry, duration entry,
                               PInt (if boundary entry then 1 else 0)]) stored))])])]\<rparr>)"
proof -
  have run: "fst (async_set_schedule sample_constants utils_pass_thru sample_parseday
      sample_device sample_edit) = None"
    by (simp add: async_set_schedule_def build_schedule_def pass_other_def stored_triple_def
                  getitem_def utils_pass_thru_def sample_defs)
  then have h1: "async_set_schedule sample_constants utils_pass_thru sample_parseday
      sample_device sample_edit
      = (None, snd (async_set_schedule sample_constants utils_pass_thru sample_parseday
                      sample_device sample_edit))"
    by (metis prod.collapse)
  have h2: "sample_edit ''type'' = Some (PStr ''primary'')"
    by (simp add: sample_edit_def)
  have h3: "''primary'' = ''primary'' \<or> ''primary'' = ''secondary''"
    by simp
  have h4: "SCHEDULE_TYPE_MAP sample_constants ''primary''
      \<noteq> SCHEDULE_TYPE_MAP sample_constants ''secondary''"
    by (simp add: sample_constants_def)
  have keys: "SCHEDULE_TYPE_MAP sample_constants ''primary'' = Some ''d''"
             "SCHEDULE_TYPE_MAP sample_constants ''secondary'' = Some ''dd''"
    by (simp_all add: sample_constants_def)
  from schedule_document_both_types [OF h1 h2 h3 h4] keys
  have ex: "\<exists>days stored.
         generate_days sample_parseday sample_device ''primary'' sample_edit
           (SCHEDULE_TO_DAY sample_constants) [] = Inr days \<and>
         map_of (schedules sample_device) ''secondary'' = Some stored \<and>
         snd (async_set_schedule sample_constants utils_pass_thru sample_parseday sample_device
                sample_edit)
           = sample_device\<lparr>calls := calls sample_device @
               [Send (PDict [(''sc'', PDict
                  [(''d'', PList days),
                   (''dd'', PList (map (\<lambda>(name, entry).
                        PList [start entry, duration entry,
                               PInt (if boundary entry then 1 else 0)]) stored))])])]\<rparr>"
    by auto
  have val: "async_set_schedule sample_constants utils_pass_thru sample_parseday sample_device
      sample_edit
     = (None, sample_device\<lparr>calls :=
         [Send (PDict [(''sc'', PDict
            [(''d'', PList [PList [PStr ''10:00'', PStr ''11:30'', PInt 0],
                           PList [PStr ''09:00'', PInt 90, PInt 0],
                           PList [PStr ''09:00'', PInt 0, PInt 0],
                           PList [PStr ''09:00'', PInt 45, PInt 0],
                           PList [PStr ''09:00'', PInt 30, PInt 1],
                           PList [PStr ''09:00'', PInt 0, PInt 0],
                           PList [PStr ''09:00'', PInt 120, PInt 0]]),
             (''dd'', PList [PList [PStr ''15:00'', PInt 60, PInt 1],
                            PList [PStr ''15:00'', PInt 90, PInt 0],
                            PList [PStr ''15:00'', PInt 0, PInt 0],
                            PList [PStr ''15:00'', PInt 45, PInt 0],
                            PList [PStr ''15:00'', PInt 30, PInt 1],
                            PList [PStr ''15:00'', PInt 0, PInt 0],
                            PList [PStr ''15:00'', PInt 120, PInt 0]])])])]\<rparr>)"
    by (simp add: async_set_schedule_def build_schedule_def pass_other_def stored_triple_def
                  getitem_def utils_pass_thru_def sample_defs)
  from val ex show ?thesis by blast
qed

text \<open>
  C4. In a schedule edit that completes, the list sent under the edited type's wire key
  has one element per weekday, in table order, and for every weekday whose start time
  the request does not hold, that element is the triple of the device's stored day of
  that type: its start, its duration, and its boundary flag as the integer 1 or 0. An
  edit of one weekday therefore sends the stored triples of the other six. (For a
  primary edit the two wire keys are taken to differ, so that the secondary entry does
  not replace the list.)
\<close>

theorem schedule_unedited_days_carried:
  assumes "async_set_schedule c pass_thru parseday device data = (None, device')"
    and "data ''type'' = Some (PStr t)"
    and "t = ''primary'' \<longrightarrow> SCHEDULE_TYPE_MAP c ''secondary'' \<noteq> SCHEDULE_TYPE_MAP c ''primary''"
  shows "\<exists>k schedule days.
     SCHEDULE_TYPE_MAP c t = Some k \<and>
     device' = device\<lparr>calls := calls device @ [Send (PDict [(''sc'', PDict schedule)])]\<rparr> \<and>
     map_of schedule k = Some (PList days) \<and>
     length days = length (SCHEDULE_TO_DAY c) \<and>
     (\<forall>i < length (SCHEDULE_TO_DAY c). data (day_start (SCHEDULE_TO_DAY c ! i)) = None \<longrightarrow>
        (\<exists>stored entry.
           map_of (schedules device) t = Some stored \<and>
           map_of stored (day_clear (SCHEDULE_TO_DAY c ! i)) = Some entry \<and>
           days ! i = PList [start entry, duration entry, PInt (if boundary entry then 1 else 0)]))"
proof -
  from async_set_schedule_None [OF assms(1)] obtain schedule where
    b: "build_schedule c pass_thru parseday device data = Inr schedule"
    and d: "device' = device\<lparr>calls := calls device @ [Send (PDict [(''sc'', PDict schedule)])]\<rparr>"
    by blast
  from build_schedule_edited_key [OF b assms(2,3)] obtain k days where
    k: "SCHEDULE_TYPE_MAP c t = Some k"
    and g: "generate_days parseday device t data (SCHEDULE_TO_DAY c) [] = Inr days"
    and m: "map_of schedule k = Some (PList days)"
    by blast
  from generate_days_result [OF g] have
    len: "length days = length (SCHEDULE_TO_DAY c)"
    and st: "\<forall>i < length (SCHEDULE_TO_DAY c). data (day_start (SCHEDULE_TO_DAY c ! i)) = None \<longrightarrow>
        stored_triple device t (SCHEDULE_TO_DAY c ! i) = Inr (days ! i)"
    by auto
  have "\<forall>i < length (SCHEDULE_TO_DAY c). data (day_start (SCHEDULE_TO_DAY c ! i)) = None \<longrightarrow>
        (\<exists>stored entry.
           map_of (schedules device) t = Some stored \<and>
           map_of stored (day_clear (SCHEDULE_TO_DAY c ! i)) = Some entry \<and>
           days ! i = PList [start entry, duration entry, PInt (if boundary entry then 1 else 0)])"
    using st stored_triple_Inr by blast
  with k d m len show ?thesis by blast
qed

theorem schedule_unedited_days_carried_witness:
  "fst (async_set_schedule sample_constants sample_pass_thru sample_parseday sample_device
          sample_edit) = None
   \<and> (\<exists>schedule days.
        snd (async_set_schedule sample_constants sample_pass_thru sample_parseday sample_device
               sample_edit)
          = sample_device\<lparr>calls := calls sample_device @
              [Send (PDict [(''sc'', PDict schedule)])]\<rparr> \<and>
        map_of schedule ''d'' = Some (PList days) \<and>
        length days = 7 \<and>
        days ! 1 = PList [PStr ''09:00'', PInt 90, PInt 0] \<and>
        days ! 4 = PList [PStr ''09:00'', PInt 30, PInt 1])"
proof -
  have run: "fst (async_set_schedule sample_constants sample_pass_thru sample_parseday
      sample_device sample_edit) = None"
    by (simp add: async_set_schedule_def build_schedule_def pass_other_def stored_triple_def
                  getitem_def sample_defs)
  then have h1: "async_set_schedule sample_constants sample_pass_thru sample_parseday
      sample_device sample_edit
      = (None, snd (async_set_schedule sample_constants sample_pass_thru sample_parseday
                      sample_device sample_edit))"
    by (metis prod.collapse)
  have h2: "sample_edit ''type'' = Some (PStr ''primary'')"
    by (simp add: sample_edit_def)
  have h3: "''primary'' = ''primary'' \<longrightarrow> SCHEDULE_TYPE_MAP sample_constants ''secondary''
      \<noteq> SCHEDULE_TYPE_MAP sample_constants ''primary''"
    by (simp add: sample_constants_def)
  from schedule_unedited_days_carried [OF h1 h2 h3] obtain k schedule days where
    k: "SCHEDULE_TYPE_MAP sample_constants ''primary'' = Some k"
    and d: "snd (async_set_schedule sample_constants sample_pass_thru sample_parseday
                   sample_device sample_edit)
          = sample_device\<lparr>calls := calls sample_device @
              [Send (PDict [(''sc'', PDict schedule)])]\<rparr>"
    and m: "map_of schedule k = Some (PList days)"
    and len: "length days = length (SCHEDULE_TO_DAY sample_constants)"
    and all: "\<forall>i < length (SCHEDULE_TO_DAY sample_constants).
        sample_edit (day_start (SCHEDULE_TO_DAY sample_constants ! i)) = None \<longrightarrow>
        (\<exists>stored entry.
           map_of (schedules sample_device) ''primary'' = Some stored \<and>
           map_of stored (day_clear (SCHEDULE_TO_DAY sample_constants ! i)) = Some entry \<and>
           days ! i = PList [start entry, duration entry, PInt (if boundary entry then 1 else 0)])"
    by blast
  from k have k': "k = ''d''" by (simp add: sample_constants_def)
  from len have len': "length days = 7" by (simp add: sample_constants_def sample_days_def)
  from all [rule_format, of 1]
  have d1: "days ! 1 = PList [PStr ''09:00'', PInt 90, PInt 0]"
    by (simp add: sample_constants_def sample_days_def sample_edit_def sample_device_def
                  sample_week_def)
  from all [rule_format, of 4]
  have d4: "days ! 4 = PList [PStr ''09:00'', PInt 30, PInt 1]"
    by (simp add: sample_constants_def sample_days_def sample_edit_def sample_device_def
                  sample_week_def)
  from run d m k' len' d1 d4 show ?thesis by blast
qed

end
